theory Spec2Isabelle
  imports Main
begin

section \<open>The world around the dispatcher\<close>

text \<open>
  remindctl is a command-line wrapper: each handler locates a compiled binary next to
  the Python package, builds an argument vector and runs the binary with
  \<^verbatim>\<open>subprocess.run(cmd_parts, capture_output=True, text=True, check=True)\<close>.
  What the handlers read from the outside is collected in \<open>env\<close>; what they do to the
  outside is recorded, in order, as a list of \<open>event\<close>s.
\<close>

datatype run_outcome =
    Completed int string string      \<comment> \<open>the child ran: return code, captured stdout, captured stderr\<close>
  | Raises_FileNotFoundError string  \<comment> \<open>\<^verbatim>\<open>subprocess.run\<close> raised FileNotFoundError; its \<^verbatim>\<open>str\<close>\<close>
  | Raises_other string              \<comment> \<open>\<^verbatim>\<open>subprocess.run\<close> raised another Exception; its \<^verbatim>\<open>str\<close>\<close>

record env =
  abspath_file :: "string \<Rightarrow> string"
    \<comment> \<open>\<^verbatim>\<open>os.path.abspath(__file__)\<close> inside the module \<^verbatim>\<open>remindctl/commands/<name>.py\<close>\<close>
  path_exists :: "string \<Rightarrow> bool"
    \<comment> \<open>\<^verbatim>\<open>os.path.exists\<close>; the file system does not change during one run\<close>
  subprocess_run :: "string list \<Rightarrow> run_outcome"
    \<comment> \<open>what running an argument vector does\<close>
  str_CalledProcessError :: "string list \<Rightarrow> int \<Rightarrow> string"
    \<comment> \<open>\<^verbatim>\<open>str(e)\<close> of the library's CalledProcessError for a command and a return code\<close>

datatype exn =
    FileNotFoundError string
  | ValueError string
  | CalledProcessError "string list" int string string  \<comment> \<open>cmd, returncode, stdout, stderr\<close>
  | Other_exception string

fun str :: "env \<Rightarrow> exn \<Rightarrow> string" where
  "str env (FileNotFoundError m) = m"
| "str env (ValueError m) = m"
| "str env (CalledProcessError cmd rc out err) = str_CalledProcessError env cmd rc"
| "str env (Other_exception m) = m"

datatype event =
    Exists string       \<comment> \<open>a call of \<^verbatim>\<open>os.path.exists\<close>\<close>
  | Run "string list"   \<comment> \<open>a call of \<^verbatim>\<open>subprocess.run\<close>: the child process is started\<close>
  | Stdout string       \<comment> \<open>text written to \<^verbatim>\<open>sys.stdout\<close>\<close>
  | Stderr string       \<comment> \<open>text written to \<^verbatim>\<open>sys.stderr\<close>\<close>
  | Print_help          \<comment> \<open>\<^verbatim>\<open>parser.print_help()\<close>\<close>
  | Usage_error         \<comment> \<open>\<^verbatim>\<open>parser.error(...)\<close>: usage and message on stderr\<close>

type_synonym result = "event list \<times> (exn + unit)"

definition after :: "event list \<Rightarrow> result \<Rightarrow> result" where
  "after evs r = (evs @ fst r, snd r)"

fun spawned :: "event list \<Rightarrow> string list list" where
  "spawned [] = []"
| "spawned (Run cmd # evs) = cmd # spawned evs"
| "spawned (_ # evs) = spawned evs"

fun is_probe :: "event \<Rightarrow> bool" where
  "is_probe (Exists _) = True"
| "is_probe _ = False"

section \<open>\<^verbatim>\<open>os.path\<close> on POSIX\<close>

definition dirname :: "string \<Rightarrow> string" where
  \<comment> \<open>\<^verbatim>\<open>i = p.rfind('/') + 1; head = p[:i];
      if head and head != '/' * len(head): head = head.rstrip('/')\<close>\<close>
  "dirname p =
     (let head = rev (dropWhile (\<lambda>c. c \<noteq> CHR ''/'') (rev p))
      in if head \<noteq> [] \<and> \<not> list_all (\<lambda>c. c = CHR ''/'') head
         then rev (dropWhile (\<lambda>c. c = CHR ''/'') (rev head))
         else head)"

definition join :: "string \<Rightarrow> string \<Rightarrow> string" where
  \<comment> \<open>\<^verbatim>\<open>os.path.join(a, b)\<close> with two arguments\<close>
  "join a b =
     (if take 1 b = ''/'' then b
      else if a = [] \<or> last a = CHR ''/'' then a @ b
      else a @ ''/'' @ b)"

section \<open>The handlers\<close>

definition truthy :: "string option \<Rightarrow> bool" where
  \<comment> \<open>Python's truth value of an optional flag: None and the empty string are false\<close>
  "truthy v = (case v of None \<Rightarrow> False | Some s \<Rightarrow> s \<noteq> [])"

definition run_and_relay :: "env \<Rightarrow> string \<Rightarrow> string list \<Rightarrow> result" where
  \<comment> \<open>the \<^verbatim>\<open>try\<close> block closing each handler (add.py 31-43, section.py 49-61,
      subtask.py 50-62), the same up to the binary's name\<close>
  "run_and_relay env name cmd_parts =
     (case subprocess_run env cmd_parts of
        Completed rc out err \<Rightarrow>
          if rc = 0 then
            ([Run cmd_parts, Stdout out] @ (if err \<noteq> [] then [Stdout err] else []), Inr ())
          else
            (let e = CalledProcessError cmd_parts rc out err in
             ([Run cmd_parts,
               Stdout (''Error running '' @ name @ '': '' @ str env e @ ''\<newline>''),
               Stdout (''Stdout: '' @ out @ ''\<newline>''),
               Stdout (''Stderr: '' @ err @ ''\<newline>'')], Inl e))
      | Raises_FileNotFoundError m \<Rightarrow>
          ([Run cmd_parts,
            Stdout (''Error: '' @ m @ ''. Make sure '' @ [CHR 0x27] @ name @ [CHR 0x27]
                    @ '' is compiled and accessible.'' @ ''\<newline>'')],
           Inl (FileNotFoundError m))
      | Raises_other m \<Rightarrow> ([Run cmd_parts], Inl (Other_exception m)))"

subsection \<open>\<^verbatim>\<open>remindctl/commands/add.py\<close>\<close>

record add_args =
  title :: string
  section_id :: "string option"
  list_id :: "string option"

definition locate_reminderctl :: "env \<Rightarrow> event list \<times> (exn + string)" where
  \<comment> \<open>add.py 11-19: one location, no fallback\<close>
  "locate_reminderctl env =
     (let script_dir = dirname (abspath_file env ''add'');
          project_root = dirname (dirname script_dir);
          reminderctl_path = join project_root ''reminderctl''
      in if \<not> path_exists env reminderctl_path then
           ([Exists reminderctl_path],
            Inl (FileNotFoundError (''reminderctl binary not found at '' @ reminderctl_path
                   @ ''. Make sure to compile reminderctl.swift first.'')))
         else ([Exists reminderctl_path], Inr reminderctl_path))"

definition add_cmd_parts :: "string \<Rightarrow> add_args \<Rightarrow> exn + string list" where
  \<comment> \<open>add.py 22-29\<close>
  "add_cmd_parts reminderctl_path args =
     (let cmd_parts = [reminderctl_path, ''add'', add_args.title args] in
      if truthy (add_args.section_id args) then
        Inr (cmd_parts @ [''--section'', the (add_args.section_id args)])
      else if truthy (add_args.list_id args) then
        Inr (cmd_parts @ [''--list'', the (add_args.list_id args)])
      else Inl (ValueError ''Either --section or --list must be specified''))"

definition run_add_cmd :: "env \<Rightarrow> add_args \<Rightarrow> result" where
  "run_add_cmd env args =
     (case locate_reminderctl env of
        (probes, Inl e) \<Rightarrow> (probes, Inl e)
      | (probes, Inr reminderctl_path) \<Rightarrow>
          (case add_cmd_parts reminderctl_path args of
             Inl e \<Rightarrow> (probes, Inl e)
           | Inr cmd_parts \<Rightarrow> after probes (run_and_relay env ''reminderctl'' cmd_parts)))"

subsection \<open>\<^verbatim>\<open>remindctl/commands/section.py\<close>\<close>

record section_args =
  operation :: string
  list_id :: "string option"
  section_id :: "string option"
  display_name :: "string option"

definition locate_sectionctl :: "env \<Rightarrow> event list \<times> (exn + string)" where
  \<comment> \<open>section.py 11-24; \<open>sectionctl_path'\<close> is \<^verbatim>\<open>sectionctl_path\<close> after line 18\<close>
  "locate_sectionctl env =
     (let script_dir = dirname (abspath_file env ''section'');
          project_root = dirname (dirname script_dir);
          sectionctl_path = join project_root ''sectionctl'';
          sectionctl_path' =
            (if \<not> path_exists env sectionctl_path
             then (let package_dir = dirname script_dir in join package_dir ''sectionctl'')
             else sectionctl_path);
          probes = [Exists sectionctl_path, Exists sectionctl_path']
      in if \<not> path_exists env sectionctl_path' then
           (probes,
            Inl (FileNotFoundError (''sectionctl binary not found. Expected at ''
                   @ join project_root ''sectionctl''
                   @ ''. Make sure to compile sectionctl.swift first.'')))
         else (probes, Inr sectionctl_path'))"

definition section_cmd_parts :: "string \<Rightarrow> section_args \<Rightarrow> exn + string list" where
  \<comment> \<open>section.py 26-47\<close>
  "section_cmd_parts sectionctl_path args =
     (let cmd_parts = [sectionctl_path, section_args.operation args] in
      if section_args.operation args = ''create'' then
        if \<not> truthy (section_args.list_id args) \<or> \<not> truthy (display_name args) then
          Inl (ValueError ''Both --list-id and --display-name are required for create operation.'')
        else Inr (cmd_parts @ [the (section_args.list_id args), the (display_name args)])
      else if section_args.operation args = ''list'' then
        if truthy (section_args.list_id args)
        then Inr (cmd_parts @ [the (section_args.list_id args)])
        else Inr cmd_parts
      else if section_args.operation args = ''update'' then
        if \<not> truthy (section_args.section_id args) \<or> \<not> truthy (display_name args) then
          Inl (ValueError ''Both --section-id and --display-name are required for update operation.'')
        else Inr (cmd_parts @ [the (section_args.section_id args), the (display_name args)])
      else if section_args.operation args = ''delete'' then
        if \<not> truthy (section_args.section_id args) then
          Inl (ValueError ''--section-id is required for delete operation.'')
        else Inr (cmd_parts @ [the (section_args.section_id args)])
      else if section_args.operation args = ''lists'' then Inr cmd_parts
      else Inl (ValueError (''Unsupported section operation: '' @ section_args.operation args)))"

definition run_section_cmd :: "env \<Rightarrow> section_args \<Rightarrow> result" where
  "run_section_cmd env args =
     (case locate_sectionctl env of
        (probes, Inl e) \<Rightarrow> (probes, Inl e)
      | (probes, Inr sectionctl_path) \<Rightarrow>
          (case section_cmd_parts sectionctl_path args of
             Inl e \<Rightarrow> (probes, Inl e)
           | Inr cmd_parts \<Rightarrow> after probes (run_and_relay env ''sectionctl'' cmd_parts)))"

subsection \<open>\<^verbatim>\<open>remindctl/commands/subtask.py\<close>\<close>

record subtask_args =
  operation :: string
  parent_id :: "string option"
  subtask_id :: "string option"
  title :: "string option"
  new_title :: "string option"

definition locate_subtaskctl :: "env \<Rightarrow> event list \<times> (exn + string)" where
  \<comment> \<open>subtask.py 12-25; \<open>subtaskctl_path'\<close> is \<^verbatim>\<open>subtaskctl_path\<close> after line 19\<close>
  "locate_subtaskctl env =
     (let script_dir = dirname (abspath_file env ''subtask'');
          project_root = dirname (dirname script_dir);
          subtaskctl_path = join project_root ''subtaskctl'';
          subtaskctl_path' =
            (if \<not> path_exists env subtaskctl_path
             then (let package_dir = dirname script_dir in join package_dir ''subtaskctl'')
             else subtaskctl_path);
          probes = [Exists subtaskctl_path, Exists subtaskctl_path']
      in if \<not> path_exists env subtaskctl_path' then
           (probes,
            Inl (FileNotFoundError (''subtaskctl binary not found. Expected at ''
                   @ join project_root ''subtaskctl''
                   @ ''. Make sure to compile subtaskctl.swift first.'')))
         else (probes, Inr subtaskctl_path'))"

definition subtask_cmd_parts :: "string \<Rightarrow> subtask_args \<Rightarrow> exn + string list" where
  \<comment> \<open>subtask.py 27-48\<close>
  "subtask_cmd_parts subtaskctl_path args =
     (let cmd_parts = [subtaskctl_path, operation args] in
      if operation args = ''create'' then
        if \<not> truthy (parent_id args) \<or> \<not> truthy (title args) then
          Inl (ValueError ''Both --parent-id and --title are required for create operation.'')
        else Inr (cmd_parts @ [the (parent_id args), the (title args)])
      else if operation args = ''list'' then
        if \<not> truthy (parent_id args) then
          Inl (ValueError ''--parent-id is required for list operation.'')
        else Inr (cmd_parts @ [the (parent_id args)])
      else if operation args = ''update'' then
        if \<not> truthy (subtask_id args) then
          Inl (ValueError ''--subtask-id is required for update operation.'')
        else if truthy (new_title args)
        then Inr (cmd_parts @ [the (subtask_id args)] @ [the (new_title args)])
        else Inr (cmd_parts @ [the (subtask_id args)])
      else if operation args = ''delete'' then
        if \<not> truthy (subtask_id args) then
          Inl (ValueError ''--subtask-id is required for delete operation.'')
        else Inr (cmd_parts @ [the (subtask_id args)])
      else Inl (ValueError (''Unsupported subtask operation: '' @ operation args)))"

definition run_subtask_cmd :: "env \<Rightarrow> subtask_args \<Rightarrow> result" where
  "run_subtask_cmd env args =
     (case locate_subtaskctl env of
        (probes, Inl e) \<Rightarrow> (probes, Inl e)
      | (probes, Inr subtaskctl_path) \<Rightarrow>
          (case subtask_cmd_parts subtaskctl_path args of
             Inl e \<Rightarrow> (probes, Inl e)
           | Inr cmd_parts \<Rightarrow> after probes (run_and_relay env ''subtaskctl'' cmd_parts)))"

section \<open>The top-level router: \<^verbatim>\<open>remindctl/__main__.py\<close>\<close>

text \<open>
  The command line is taken as argparse groups it: either no positional argument at all,
  or a first positional word (handed to the subparsers action, \<^verbatim>\<open>dest="command"\<close>)
  followed by the arguments of the subcommand, each a positional word or an option string
  written in full with its value. Top-level options (\<^verbatim>\<open>--version\<close>, \<^verbatim>\<open>-h\<close>),
  abbreviated option strings and options without a value are not represented.

  \<^verbatim>\<open>main\<close> registers one subparser, so the attributes a subparser stores are those of
  \<open>subtask_args\<close>. An exit status is the second component of a result of the router.
\<close>

datatype arg = Positional string | Flag string string

datatype cmdline = No_subcommand | Subcommand string "arg list"

definition subtask_option :: "string \<Rightarrow> string \<Rightarrow> subtask_args \<Rightarrow> subtask_args option" where
  \<comment> \<open>the four \<^verbatim>\<open>add_argument("--...", dest=...)\<close> of subtask.py 73-92\<close>
  "subtask_option flag v ns =
     (if flag = ''--parent-id'' then Some (ns\<lparr>parent_id := Some v\<rparr>)
      else if flag = ''--subtask-id'' then Some (ns\<lparr>subtask_id := Some v\<rparr>)
      else if flag = ''--title'' then Some (ns\<lparr>title := Some v\<rparr>)
      else if flag = ''--new-title'' then Some (ns\<lparr>new_title := Some v\<rparr>)
      else None)"

fun subtask_scan :: "arg list \<Rightarrow> string list \<times> subtask_args \<Rightarrow> (string list \<times> subtask_args) option" where
  \<comment> \<open>left to right: positional words are collected, a later option overrides an earlier one,
      an option that is not registered is an error\<close>
  "subtask_scan [] st = Some st"
| "subtask_scan (Positional w # rest) (ws, ns) = subtask_scan rest (ws @ [w], ns)"
| "subtask_scan (Flag flag v # rest) (ws, ns) =
     (case subtask_option flag v ns of
        None \<Rightarrow> None
      | Some ns' \<Rightarrow> subtask_scan rest (ws, ns'))"

definition subtask_parse :: "arg list \<Rightarrow> subtask_args option" where
  \<comment> \<open>the subparser built by subtask.py 67-92: exactly one positional, \<^verbatim>\<open>operation\<close>,
      with \<^verbatim>\<open>choices\<close>; every option defaults to None. None is a usage error.\<close>
  "subtask_parse args =
     (case subtask_scan args
             ([], \<lparr>operation = [], parent_id = None, subtask_id = None,
                   title = None, new_title = None\<rparr>) of
        Some ([w], ns) \<Rightarrow>
          if w \<in> set [''create'', ''list'', ''update'', ''delete'']
          then Some (ns\<lparr>operation := w\<rparr>) else None
      | _ \<Rightarrow> None)"

record subparser =
  parse :: "arg list \<Rightarrow> subtask_args option"
  handler :: "env \<Rightarrow> subtask_args \<Rightarrow> result"  \<comment> \<open>\<^verbatim>\<open>set_defaults(func=...)\<close>\<close>

definition subtask_parser :: "(string \<times> subparser) list \<Rightarrow> (string \<times> subparser) list" where
  \<comment> \<open>subtask.py 65-93: \<^verbatim>\<open>subparsers.add_parser("subtask", ...)\<close>\<close>
  "subtask_parser subparsers =
     subparsers @ [(''subtask'', \<lparr>parse = subtask_parse, handler = run_subtask_cmd\<rparr>)]"

definition subparsers :: "(string \<times> subparser) list" where
  \<comment> \<open>__main__.py 22-29: the only registration is \<^verbatim>\<open>subtask_parser(subparsers)\<close>\<close>
  "subparsers = subtask_parser []"

record namespace =
  command :: "string option"
  func :: "(env \<Rightarrow> result) option"
    \<comment> \<open>present when a subparser set it; \<open>func env\<close> is \<^verbatim>\<open>args.func(args)\<close>, the handler
        applied to the attributes the subparser stored in this namespace\<close>

definition parse_args :: "(string \<times> subparser) list \<Rightarrow> cmdline \<Rightarrow> (event list \<times> int) + namespace" where
  \<comment> \<open>\<^verbatim>\<open>parser.parse_args()\<close>: Inl is argparse leaving through \<^verbatim>\<open>parser.error\<close>, status 2\<close>
  "parse_args subs cmdline =
     (case cmdline of
        No_subcommand \<Rightarrow> Inr \<lparr>command = None, func = None\<rparr>
      | Subcommand w rest \<Rightarrow>
          (case map_of subs w of
             None \<Rightarrow> Inl ([Usage_error], 2)
           | Some sp \<Rightarrow>
               (case parse sp rest of
                  None \<Rightarrow> Inl ([Usage_error], 2)
                | Some a \<Rightarrow> Inr \<lparr>command = Some w, func = Some (\<lambda>env. handler sp env a)\<rparr>)))"

definition dispatch :: "env \<Rightarrow> namespace \<Rightarrow> event list \<times> int" where
  \<comment> \<open>__main__.py 34-47; the second component is the exit status\<close>
  "dispatch env args =
     (if command args = None then ([Print_help], 0)
      else case func args of
        Some f \<Rightarrow>
          (case f env of
             (evs, Inr _) \<Rightarrow> (evs, 0)
           | (evs, Inl e) \<Rightarrow> (evs @ [Stderr (''Error: '' @ str env e @ ''\<newline>'')], 1))
      | None \<Rightarrow> ([Print_help], 1))"

definition main :: "env \<Rightarrow> cmdline \<Rightarrow> event list \<times> int" where
  "main env cmdline =
     (case parse_args subparsers cmdline of
        Inl exit \<Rightarrow> exit
      | Inr args \<Rightarrow> dispatch env args)"

section \<open>Invocation requests\<close>

text \<open>
  The specification speaks of every subcommand at once. A request is the namespace one of
  the three handlers receives; \<open>run_cmd\<close> is the handler for it, and \<open>invoked\<close> is the
  namespace a subparser registered for it would hand to lines 34-47 of the router.
\<close>

datatype request = Add add_args | Section section_args | Subtask subtask_args

fun run_cmd :: "env \<Rightarrow> request \<Rightarrow> result" where
  "run_cmd env (Add a) = run_add_cmd env a"
| "run_cmd env (Section a) = run_section_cmd env a"
| "run_cmd env (Subtask a) = run_subtask_cmd env a"

fun subcommand :: "request \<Rightarrow> string" where
  "subcommand (Add a) = ''add''"
| "subcommand (Section a) = ''section''"
| "subcommand (Subtask a) = ''subtask''"

fun binary :: "request \<Rightarrow> string" where
  "binary (Add a) = ''reminderctl''"
| "binary (Section a) = ''sectionctl''"
| "binary (Subtask a) = ''subtaskctl''"

fun locate :: "env \<Rightarrow> request \<Rightarrow> event list \<times> (exn + string)" where
  "locate env (Add a) = locate_reminderctl env"
| "locate env (Section a) = locate_sectionctl env"
| "locate env (Subtask a) = locate_subtaskctl env"

fun cmd_parts :: "string \<Rightarrow> request \<Rightarrow> exn + string list" where
  "cmd_parts p (Add a) = add_cmd_parts p a"
| "cmd_parts p (Section a) = section_cmd_parts p a"
| "cmd_parts p (Subtask a) = subtask_cmd_parts p a"

definition invoked :: "request \<Rightarrow> namespace" where
  "invoked r = \<lparr>command = Some (subcommand r), func = Some (\<lambda>env. run_cmd env r)\<rparr>"

fun spec_missing_required :: "request \<Rightarrow> bool" where
  \<comment> \<open>the required-field rules of the specification's Argument Validator: a required
      field of the request's operation is absent\<close>
  "spec_missing_required (Add a) =
     (add_args.section_id a = None \<and> add_args.list_id a = None)"
| "spec_missing_required (Section a) =
     (if section_args.operation a = ''create''
        then section_args.list_id a = None \<or> display_name a = None
      else if section_args.operation a = ''update''
        then section_args.section_id a = None \<or> display_name a = None
      else if section_args.operation a = ''delete''
        then section_args.section_id a = None
      else False)"
| "spec_missing_required (Subtask a) =
     (if operation a = ''create'' then parent_id a = None \<or> title a = None
      else if operation a = ''list'' then parent_id a = None
      else if operation a = ''update'' then subtask_id a = None
      else if operation a = ''delete'' then subtask_id a = None
      else False)"

fun is_ValueError :: "exn + 'a \<Rightarrow> bool" where
  "is_ValueError (Inl (ValueError m)) = True"
| "is_ValueError _ = False"

fun is_FileNotFoundError :: "exn + 'a \<Rightarrow> bool" where
  "is_FileNotFoundError (Inl (FileNotFoundError m)) = True"
| "is_FileNotFoundError _ = False"

definition blank_to_None :: "string option \<Rightarrow> string option" where
  "blank_to_None v = (if v = Some [] then None else v)"

fun absent_for_blank :: "request \<Rightarrow> request" where
  \<comment> \<open>the same request with every flag given as the empty string left out instead\<close>
  "absent_for_blank (Add a) =
     Add (a\<lparr>add_args.section_id := blank_to_None (add_args.section_id a),
            add_args.list_id := blank_to_None (add_args.list_id a)\<rparr>)"
| "absent_for_blank (Section a) =
     Section (a\<lparr>section_args.list_id := blank_to_None (section_args.list_id a),
                section_args.section_id := blank_to_None (section_args.section_id a),
                display_name := blank_to_None (display_name a)\<rparr>)"
| "absent_for_blank (Subtask a) =
     Subtask (a\<lparr>parent_id := blank_to_None (parent_id a),
                subtask_id := blank_to_None (subtask_id a),
                title := blank_to_None (title a),
                new_title := blank_to_None (new_title a)\<rparr>)"

section \<open>Sample installations\<close>

definition installed :: env where
  \<comment> \<open>every binary is in the project root \<^verbatim>\<open>/srv/app\<close>; the child prints and exits 0\<close>
  "installed =
     \<lparr>abspath_file = (\<lambda>m. ''/srv/app/remindctl/commands/'' @ m @ ''.py''),
      path_exists = (\<lambda>p. True),
      subprocess_run = (\<lambda>cmd. Completed 0 ''done'' []),
      str_CalledProcessError = (\<lambda>cmd rc. ''Command failed'')\<rparr>"

definition not_built :: env where
  \<comment> \<open>no binary anywhere\<close>
  "not_built = installed\<lparr>path_exists := (\<lambda>p. False)\<rparr>"

definition in_package :: env where
  \<comment> \<open>the binaries are in the package directory \<^verbatim>\<open>/srv/app/remindctl\<close> only\<close>
  "in_package = installed\<lparr>path_exists := (\<lambda>p. take 19 p = ''/srv/app/remindctl/'')\<rparr>"

definition noisy :: env where
  \<comment> \<open>every binary is in the project root; the child exits 0 with text on both streams\<close>
  "noisy = installed\<lparr>subprocess_run := (\<lambda>cmd. Completed 0 ''done'' ''warning'')\<rparr>"

definition failing :: env where
  \<comment> \<open>every binary is in the project root; the child exits 3\<close>
  "failing = installed\<lparr>subprocess_run := (\<lambda>cmd. Completed 3 ''partial'' ''boom'')\<rparr>"

section \<open>Supporting lemmas\<close>

subsection \<open>Traces\<close>

lemma spawned_append: "spawned (xs @ ys) = spawned xs @ spawned ys"
  by (induction xs rule: spawned.induct) simp_all

lemma spawned_run_and_relay: "spawned (fst (run_and_relay env name cmd)) = [cmd]"
  by (simp add: run_and_relay_def Let_def split: run_outcome.split)

lemma locate_reminderctl_probes: "spawned (fst (locate_reminderctl env)) = []"
  by (simp add: locate_reminderctl_def Let_def)

lemma locate_sectionctl_probes: "spawned (fst (locate_sectionctl env)) = []"
  by (simp add: locate_sectionctl_def Let_def)

lemma locate_subtaskctl_probes: "spawned (fst (locate_subtaskctl env)) = []"
  by (simp add: locate_subtaskctl_def Let_def)

lemma locate_probes: "spawned (fst (locate env r)) = []"
  by (cases r) (simp_all add: locate_reminderctl_probes locate_sectionctl_probes locate_subtaskctl_probes)

subsection \<open>The locators' search order\<close>

text \<open>
  \<^verbatim>\<open>sectionctl\<close> and \<^verbatim>\<open>subtaskctl\<close> are looked for in the project root, two directories
  above the command modules, and then inside the package directory;
  \<^verbatim>\<open>reminderctl\<close> is looked for in the project root only.
\<close>

lemma locate_sectionctl_order:
  "snd (locate_sectionctl env) =
     (let primary = join (dirname (dirname (dirname (abspath_file env ''section'')))) ''sectionctl'';
          fallback = join (dirname (dirname (abspath_file env ''section''))) ''sectionctl''
      in if path_exists env primary then Inr primary
         else if path_exists env fallback then Inr fallback
         else Inl (FileNotFoundError (''sectionctl binary not found. Expected at '' @ primary
                     @ ''. Make sure to compile sectionctl.swift first.'')))"
  by (simp add: locate_sectionctl_def Let_def)

lemma locate_subtaskctl_order:
  "snd (locate_subtaskctl env) =
     (let primary = join (dirname (dirname (dirname (abspath_file env ''subtask'')))) ''subtaskctl'';
          fallback = join (dirname (dirname (abspath_file env ''subtask''))) ''subtaskctl''
      in if path_exists env primary then Inr primary
         else if path_exists env fallback then Inr fallback
         else Inl (FileNotFoundError (''subtaskctl binary not found. Expected at '' @ primary
                     @ ''. Make sure to compile subtaskctl.swift first.'')))"
  by (simp add: locate_subtaskctl_def Let_def)

lemma locate_reminderctl_order:
  "snd (locate_reminderctl env) =
     (let primary = join (dirname (dirname (dirname (abspath_file env ''add'')))) ''reminderctl''
      in if path_exists env primary then Inr primary
         else Inl (FileNotFoundError (''reminderctl binary not found at '' @ primary
                     @ ''. Make sure to compile reminderctl.swift first.'')))"
  by (simp add: locate_reminderctl_def Let_def)

lemma locate_outcome:
  "is_FileNotFoundError (snd (locate env r)) \<or> (\<exists>p. snd (locate env r) = Inr p)"
  by (cases r) (simp_all add: locate_reminderctl_def locate_sectionctl_def locate_subtaskctl_def Let_def)

subsection \<open>The shape of every handler\<close>

lemma run_cmd_unfold:
  "run_cmd env r =
     (case locate env r of
        (probes, Inl e) \<Rightarrow> (probes, Inl e)
      | (probes, Inr p) \<Rightarrow>
          (case cmd_parts p r of
             Inl e \<Rightarrow> (probes, Inl e)
           | Inr cmd \<Rightarrow> after probes (run_and_relay env (binary r) cmd)))"
  by (cases r) (simp_all add: run_add_cmd_def run_section_cmd_def run_subtask_cmd_def split: prod.split sum.split)

lemma run_cmd_located:
  assumes "snd (locate env r) = Inr p"
  shows "run_cmd env r =
           (case cmd_parts p r of
              Inl e \<Rightarrow> (fst (locate env r), Inl e)
            | Inr cmd \<Rightarrow> after (fst (locate env r)) (run_and_relay env (binary r) cmd))"
  using assms by (cases "locate env r") (simp add: run_cmd_unfold split: sum.split)

lemma spawned_located:
  assumes "snd (locate env r) = Inr p"
  shows "spawned (fst (run_cmd env r)) = (case cmd_parts p r of Inl e \<Rightarrow> [] | Inr cmd \<Rightarrow> [cmd])"
  using locate_probes [of env r]
  by (simp add: run_cmd_located [OF assms] after_def spawned_append spawned_run_and_relay
        split: sum.split)

lemma run_cmd_spawned:
  assumes "cmd \<in> set (spawned (fst (run_cmd env r)))"
  shows "run_cmd env r = after (fst (locate env r)) (run_and_relay env (binary r) cmd)"
proof (cases "locate env r")
  case (Pair probes res)
  have probes: "spawned probes = []"
    using locate_probes [of env r] Pair by simp
  show ?thesis
  proof (cases res)
    case (Inl e)
    with Pair probes assms show ?thesis
      by (simp add: run_cmd_unfold)
  next
    case (Inr p)
    show ?thesis
    proof (cases "cmd_parts p r")
      case (Inl e)
      with Pair Inr probes assms show ?thesis
        by (simp add: run_cmd_unfold)
    next
      case inner: (Inr cmd')
      with Pair Inr probes assms have "cmd = cmd'"
        by (simp add: run_cmd_unfold after_def spawned_append spawned_run_and_relay)
      with Pair Inr inner show ?thesis
        by (simp add: run_cmd_unfold)
    qed
  qed
qed

subsection \<open>Empty strings and absent flags\<close>

lemma truthy_blank: "truthy (blank_to_None v) = truthy v"
  by (simp add: truthy_def blank_to_None_def split: option.split)

lemma the_blank: "truthy v \<Longrightarrow> the (blank_to_None v) = the v"
  by (auto simp add: truthy_def blank_to_None_def split: option.splits)

lemma blank_None: "(blank_to_None v = None) = (\<not> truthy v)"
  by (auto simp add: truthy_def blank_to_None_def split: option.splits)

lemma locate_blank: "locate env (absent_for_blank r) = locate env r"
  by (cases r) simp_all

lemma binary_blank: "binary (absent_for_blank r) = binary r"
  by (cases r) simp_all

lemma add_cmd_parts_blank:
  "add_cmd_parts p (a\<lparr>add_args.section_id := blank_to_None (add_args.section_id a),
            add_args.list_id := blank_to_None (add_args.list_id a)\<rparr>) = add_cmd_parts p a"
  by (simp add: add_cmd_parts_def Let_def truthy_blank the_blank cong: if_cong)

lemma section_cmd_parts_blank:
  "section_cmd_parts p (a\<lparr>section_args.list_id := blank_to_None (section_args.list_id a),
                section_args.section_id := blank_to_None (section_args.section_id a),
                display_name := blank_to_None (display_name a)\<rparr>) = section_cmd_parts p a"
  by (simp add: section_cmd_parts_def Let_def truthy_blank the_blank cong: if_cong)

lemma subtask_cmd_parts_blank:
  "subtask_cmd_parts p (a\<lparr>parent_id := blank_to_None (parent_id a),
                subtask_id := blank_to_None (subtask_id a),
                title := blank_to_None (title a),
                new_title := blank_to_None (new_title a)\<rparr>) = subtask_cmd_parts p a"
  by (simp add: subtask_cmd_parts_def Let_def truthy_blank the_blank cong: if_cong)

lemma cmd_parts_blank: "cmd_parts p (absent_for_blank r) = cmd_parts p r"
  by (cases r) (simp_all add: add_cmd_parts_blank section_cmd_parts_blank subtask_cmd_parts_blank)

lemma run_cmd_blank: "run_cmd env (absent_for_blank r) = run_cmd env r"
  by (simp add: run_cmd_unfold [of env "absent_for_blank r"] run_cmd_unfold [of env r] locate_blank binary_blank cmd_parts_blank cong: prod.case_cong sum.case_cong)

lemma missing_blank: "spec_missing_required r \<Longrightarrow> spec_missing_required (absent_for_blank r)"
  by (cases r) (auto simp add: blank_to_None_def split: if_splits)

lemma cmd_parts_missing:
  "spec_missing_required (absent_for_blank r) \<Longrightarrow> is_ValueError (cmd_parts p r)"
  by (cases r) (auto simp add: blank_None add_cmd_parts_def section_cmd_parts_def subtask_cmd_parts_def split: if_splits)

lemma missing_field_core:
  assumes "spec_missing_required (absent_for_blank r)"
  shows "fst (run_cmd env r) = fst (locate env r) \<and>
         (case snd (locate env r) of
            Inr p \<Rightarrow> is_ValueError (snd (run_cmd env r))
          | Inl e \<Rightarrow> snd (run_cmd env r) = Inl e \<and> is_FileNotFoundError (snd (run_cmd env r)))"
proof (cases "locate env r")
  case (Pair probes res)
  show ?thesis
  proof (cases res)
    case (Inl e)
    with Pair locate_outcome [of env r] show ?thesis
      by (cases e) (simp_all add: run_cmd_unfold)
  next
    case (Inr p)
    from cmd_parts_missing [OF assms, of p] obtain m where "cmd_parts p r = Inl (ValueError m)"
      by (cases "cmd_parts p r" rule: is_ValueError.cases) auto
    with Pair Inr show ?thesis
      by (simp add: run_cmd_unfold)
  qed
qed

subsection \<open>The router\<close>

lemma subparsers_lookup:
  "map_of subparsers w =
     (if w = ''subtask'' then Some \<lparr>parse = subtask_parse, handler = run_subtask_cmd\<rparr> else None)"
  by (simp add: subparsers_def subtask_parser_def)

lemma main_unregistered:
  "w \<noteq> ''subtask'' \<Longrightarrow> main env (Subcommand w rest) = ([Usage_error], 2)"
  by (simp add: main_def parse_args_def subparsers_lookup)

lemma main_subtask:
  "subtask_parse rest = Some a \<Longrightarrow>
     main env (Subcommand ''subtask'' rest) = dispatch env (invoked (Subtask a))"
  by (simp add: main_def parse_args_def subparsers_lookup invoked_def)

lemma main_subtask_usage:
  "subtask_parse rest = None \<Longrightarrow> main env (Subcommand ''subtask'' rest) = ([Usage_error], 2)"
  by (simp add: main_def parse_args_def subparsers_lookup)

lemma parsed_command_has_func:
  "parse_args subparsers cmdline = Inr ns \<Longrightarrow> command ns \<noteq> None \<Longrightarrow> func ns \<noteq> None"
  by (cases cmdline)
    (auto simp add: parse_args_def subparsers_lookup split: option.splits if_splits)

subsection \<open>The sample installations\<close>

lemma dirname_add: "dirname ''/srv/app/remindctl/commands/add.py'' = ''/srv/app/remindctl/commands''"
  by (simp add: dirname_def)

lemma dirname_section: "dirname ''/srv/app/remindctl/commands/section.py'' = ''/srv/app/remindctl/commands''"
  by (simp add: dirname_def)

lemma dirname_subtask: "dirname ''/srv/app/remindctl/commands/subtask.py'' = ''/srv/app/remindctl/commands''"
  by (simp add: dirname_def)

lemma dirname_commands: "dirname ''/srv/app/remindctl/commands'' = ''/srv/app/remindctl''"
  by (simp add: dirname_def)

lemma dirname_package: "dirname ''/srv/app/remindctl'' = ''/srv/app''"
  by (simp add: dirname_def)

lemmas sample_paths =
  dirname_add dirname_section dirname_subtask dirname_commands dirname_package join_def Let_def

lemma installed_reminderctl:
  "locate_reminderctl installed = ([Exists ''/srv/app/reminderctl''], Inr ''/srv/app/reminderctl'')"
  by (simp add: locate_reminderctl_def installed_def sample_paths)

lemma installed_sectionctl:
  "locate_sectionctl installed =
     ([Exists ''/srv/app/sectionctl'', Exists ''/srv/app/sectionctl''], Inr ''/srv/app/sectionctl'')"
  by (simp add: locate_sectionctl_def installed_def sample_paths)

lemma installed_subtaskctl:
  "locate_subtaskctl installed =
     ([Exists ''/srv/app/subtaskctl'', Exists ''/srv/app/subtaskctl''], Inr ''/srv/app/subtaskctl'')"
  by (simp add: locate_subtaskctl_def installed_def sample_paths)

lemma noisy_subtaskctl:
  "locate_subtaskctl noisy =
     ([Exists ''/srv/app/subtaskctl'', Exists ''/srv/app/subtaskctl''], Inr ''/srv/app/subtaskctl'')"
  by (simp add: locate_subtaskctl_def noisy_def installed_def sample_paths)

lemma failing_subtaskctl:
  "locate_subtaskctl failing =
     ([Exists ''/srv/app/subtaskctl'', Exists ''/srv/app/subtaskctl''], Inr ''/srv/app/subtaskctl'')"
  by (simp add: locate_subtaskctl_def failing_def installed_def sample_paths)

lemma not_built_subtaskctl:
  "locate_subtaskctl not_built =
     ([Exists ''/srv/app/subtaskctl'', Exists ''/srv/app/remindctl/subtaskctl''],
      Inl (FileNotFoundError ''subtaskctl binary not found. Expected at /srv/app/subtaskctl. Make sure to compile subtaskctl.swift first.''))"
  by (simp add: locate_subtaskctl_def not_built_def installed_def sample_paths)

lemma in_package_reminderctl:
  "locate_reminderctl in_package =
     ([Exists ''/srv/app/reminderctl''],
      Inl (FileNotFoundError ''reminderctl binary not found at /srv/app/reminderctl. Make sure to compile reminderctl.swift first.''))"
  by (simp add: locate_reminderctl_def in_package_def installed_def sample_paths)

lemma in_package_sectionctl:
  "locate_sectionctl in_package =
     ([Exists ''/srv/app/sectionctl'', Exists ''/srv/app/remindctl/sectionctl''],
      Inr ''/srv/app/remindctl/sectionctl'')"
  by (simp add: locate_sectionctl_def in_package_def installed_def sample_paths)

lemma in_package_subtaskctl:
  "locate_subtaskctl in_package =
     ([Exists ''/srv/app/subtaskctl'', Exists ''/srv/app/remindctl/subtaskctl''],
      Inr ''/srv/app/remindctl/subtaskctl'')"
  by (simp add: locate_subtaskctl_def in_package_def installed_def sample_paths)

lemma parse_list_P1:
  "subtask_parse [Positional ''list'', Flag ''--parent-id'' ''P1''] =
     Some \<lparr>operation = ''list'', parent_id = Some ''P1'', subtask_id = None, title = None, new_title = None\<rparr>"
  by (simp add: subtask_parse_def subtask_option_def)

lemma parse_list:
  "subtask_parse [Positional ''list''] =
     Some \<lparr>operation = ''list'', parent_id = None, subtask_id = None, title = None, new_title = None\<rparr>"
  by (simp add: subtask_parse_def subtask_option_def)

section \<open>The claims\<close>

subsection \<open>C1: the subcommands the router accepts\<close>

text \<open>
  C1 says that each of \<^verbatim>\<open>add\<close>, \<^verbatim>\<open>section\<close> and \<^verbatim>\<open>subtask\<close> is dispatched to its handler.
  \<^verbatim>\<open>main\<close> registers \<^verbatim>\<open>subtask_parser\<close> only, although add.py and section.py define
  \<^verbatim>\<open>add_parser\<close> and \<^verbatim>\<open>section_parser\<close>. The theorem evaluates the router: the command lines
  \<^verbatim>\<open>remindctl add "Buy milk" --list Groceries\<close> and
  \<^verbatim>\<open>remindctl section create --list-id L1 --display-name Work\<close> end in argparse's usage
  error with exit status 2 and no handler runs, while
  \<^verbatim>\<open>remindctl subtask list --parent-id P1\<close> reaches \<^verbatim>\<open>run_subtask_cmd\<close>.
\<close>

theorem add_and_section_rejected:
  "main installed (Subcommand ''add'' [Positional ''Buy milk'', Flag ''--list'' ''Groceries''])
     = ([Usage_error], 2) \<and>
   main installed (Subcommand ''section''
       [Positional ''create'', Flag ''--list-id'' ''L1'', Flag ''--display-name'' ''Work''])
     = ([Usage_error], 2) \<and>
   map fst subparsers = [''subtask''] \<and>
   main installed (Subcommand ''subtask'' [Positional ''list'', Flag ''--parent-id'' ''P1''])
     = ([Exists ''/srv/app/subtaskctl'', Exists ''/srv/app/subtaskctl'',
         Run [''/srv/app/subtaskctl'', ''list'', ''P1''], Stdout ''done''], 0)"
proof -
  let ?r = "Subtask \<lparr>operation = ''list'', parent_id = Some ''P1'', subtask_id = None,
                      title = None, new_title = None\<rparr>"
  have "dispatch installed (invoked ?r)
      = ([Exists ''/srv/app/subtaskctl'', Exists ''/srv/app/subtaskctl'',
          Run [''/srv/app/subtaskctl'', ''list'', ''P1''], Stdout ''done''], 0)"
    by (simp add: dispatch_def invoked_def run_subtask_cmd_def installed_subtaskctl
          subtask_cmd_parts_def truthy_def after_def run_and_relay_def)
      (simp add: installed_def)
  then show ?thesis
    by (simp add: main_unregistered main_subtask [OF parse_list_P1] subparsers_def subtask_parser_def)
qed

subsection \<open>C2: a missing required field never spawns a child\<close>

text \<open>
  C2, as amended: for every subcommand and every request in which a required field of the
  operation is absent, no child process is spawned and the only events are the locator's
  file-system checks. The locator runs before the validation: when it finds the binary the
  handler raises the missing-field ValueError, and when it does not, the handler raises the
  locator's FileNotFoundError and the missing field is not reported.
\<close>

theorem missing_field_never_spawns:
  assumes "spec_missing_required r"
  shows "spawned (fst (run_cmd env r)) = [] \<and>
         fst (run_cmd env r) = fst (locate env r) \<and>
         (case snd (locate env r) of
            Inr p \<Rightarrow> is_ValueError (snd (run_cmd env r))
          | Inl e \<Rightarrow> snd (run_cmd env r) = Inl e \<and> is_FileNotFoundError (snd (run_cmd env r)))"
proof -
  note core = missing_field_core [OF missing_blank [OF assms], of env]
  then have "spawned (fst (run_cmd env r)) = []"
    by (simp add: locate_probes)
  with core show ?thesis by simp
qed

text \<open>
  The theorem at \<^verbatim>\<open>section create --list-id L1\<close> in an installation with every binary built.
\<close>

theorem missing_field_never_spawns_witness:
  "spec_missing_required
     (Section \<lparr>section_args.operation = ''create'', section_args.list_id = Some ''L1'',
               section_args.section_id = None, display_name = None\<rparr>) \<and>
   spawned (fst (run_cmd installed
     (Section \<lparr>section_args.operation = ''create'', section_args.list_id = Some ''L1'',
               section_args.section_id = None, display_name = None\<rparr>))) = [] \<and>
   is_ValueError (snd (run_cmd installed
     (Section \<lparr>section_args.operation = ''create'', section_args.list_id = Some ''L1'',
               section_args.section_id = None, display_name = None\<rparr>)))"
proof -
  let ?r = "Section \<lparr>section_args.operation = ''create'', section_args.list_id = Some ''L1'',
               section_args.section_id = None, display_name = None\<rparr>"
  have h: "spec_missing_required ?r" by simp
  from missing_field_never_spawns [OF h, of installed] h show ?thesis
    by (simp add: installed_sectionctl)
qed

text \<open>
  C2 as stated fails: \<^verbatim>\<open>remindctl subtask list\<close> lacks the required \<^verbatim>\<open>--parent-id\<close>, and where
  no binary is built the error reported is the binary-location error.
\<close>

theorem missing_field_hidden_by_locator:
  "spec_missing_required
     (Subtask \<lparr>operation = ''list'', parent_id = None, subtask_id = None, title = None,
               new_title = None\<rparr>) \<and>
   subtask_parse [Positional ''list''] =
     Some \<lparr>operation = ''list'', parent_id = None, subtask_id = None, title = None,
           new_title = None\<rparr> \<and>
   main not_built (Subcommand ''subtask'' [Positional ''list'']) =
     ([Exists ''/srv/app/subtaskctl'', Exists ''/srv/app/remindctl/subtaskctl'',
       Stderr ''Error: subtaskctl binary not found. Expected at /srv/app/subtaskctl. Make sure to compile subtaskctl.swift first.\<newline>''],
      1)"
  by (simp add: main_subtask [OF parse_list] parse_list dispatch_def invoked_def
        run_subtask_cmd_def not_built_subtaskctl)

subsection \<open>C3: the search order of the executable locator\<close>

text \<open>
  C3 says that every subcommand falls back to a second location. With the binaries in the
  package directory only, \<^verbatim>\<open>run_add_cmd\<close> fails after one check of the project root, although
  \<^verbatim>\<open>/srv/app/remindctl/reminderctl\<close> exists; the locators of \<^verbatim>\<open>section\<close> and \<^verbatim>\<open>subtask\<close>
  find their binaries there.
\<close>

theorem add_locator_has_no_fallback:
  "path_exists in_package ''/srv/app/remindctl/reminderctl'' \<and>
   run_add_cmd in_package
     \<lparr>add_args.title = ''Buy milk'', add_args.section_id = None,
      add_args.list_id = Some ''Groceries''\<rparr>
     = ([Exists ''/srv/app/reminderctl''],
        Inl (FileNotFoundError ''reminderctl binary not found at /srv/app/reminderctl. Make sure to compile reminderctl.swift first.'')) \<and>
   snd (locate_sectionctl in_package) = Inr ''/srv/app/remindctl/sectionctl'' \<and>
   snd (locate_subtaskctl in_package) = Inr ''/srv/app/remindctl/subtaskctl''"
  by (simp add: run_add_cmd_def in_package_reminderctl in_package_sectionctl in_package_subtaskctl)
    (simp add: in_package_def installed_def)

subsection \<open>C4: the argument vector of add\<close>

text \<open>
  C4: with \<open>p\<close> the located \<^verbatim>\<open>reminderctl\<close>, \<^verbatim>\<open>add\<close> runs exactly one child. Given a non-empty
  section identifier its argument vector is \<open>[p, add, title, --section, section_id]\<close>, whatever
  the list identifier is, so a list identifier given as well is left out; given a non-empty list
  identifier and no section identifier it is \<open>[p, add, title, --list, list_id]\<close>.
\<close>

theorem add_argument_vector:
  assumes "snd (locate_reminderctl env) = Inr p"
  shows "(s \<noteq> [] \<longrightarrow>
            spawned (fst (run_add_cmd env
              \<lparr>add_args.title = t, add_args.section_id = Some s, add_args.list_id = l'\<rparr>))
            = [[p, ''add'', t, ''--section'', s]]) \<and>
         (l \<noteq> [] \<longrightarrow>
            spawned (fst (run_add_cmd env
              \<lparr>add_args.title = t, add_args.section_id = None, add_args.list_id = Some l\<rparr>))
            = [[p, ''add'', t, ''--list'', l]])"
proof (intro conjI impI)
  let ?a = "\<lparr>add_args.title = t, add_args.section_id = Some s, add_args.list_id = l'\<rparr>"
  assume "s \<noteq> []"
  then have "cmd_parts p (Add ?a) = Inr [p, ''add'', t, ''--section'', s]"
    by (simp add: add_cmd_parts_def truthy_def)
  with spawned_located [of env "Add ?a" p] assms
  show "spawned (fst (run_add_cmd env ?a)) = [[p, ''add'', t, ''--section'', s]]"
    by simp
next
  let ?a = "\<lparr>add_args.title = t, add_args.section_id = None, add_args.list_id = Some l\<rparr>"
  assume "l \<noteq> []"
  then have "cmd_parts p (Add ?a) = Inr [p, ''add'', t, ''--list'', l]"
    by (simp add: add_cmd_parts_def truthy_def)
  with spawned_located [of env "Add ?a" p] assms
  show "spawned (fst (run_add_cmd env ?a)) = [[p, ''add'', t, ''--list'', l]]"
    by simp
qed

text \<open>
  The theorem at \<^verbatim>\<open>add "Buy milk" --section S1 --list Groceries\<close> and at
  \<^verbatim>\<open>add "Buy milk" --list Groceries\<close>.
\<close>

theorem add_argument_vector_witness:
  "snd (locate_reminderctl installed) = Inr ''/srv/app/reminderctl'' \<and>
   spawned (fst (run_add_cmd installed
     \<lparr>add_args.title = ''Buy milk'', add_args.section_id = Some ''S1'',
      add_args.list_id = Some ''Groceries''\<rparr>))
     = [[''/srv/app/reminderctl'', ''add'', ''Buy milk'', ''--section'', ''S1'']] \<and>
   spawned (fst (run_add_cmd installed
     \<lparr>add_args.title = ''Buy milk'', add_args.section_id = None,
      add_args.list_id = Some ''Groceries''\<rparr>))
     = [[''/srv/app/reminderctl'', ''add'', ''Buy milk'', ''--list'', ''Groceries'']]"
proof -
  have h: "snd (locate_reminderctl installed) = Inr ''/srv/app/reminderctl''"
    by (simp add: installed_reminderctl)
  from add_argument_vector [OF h, of "''S1''" "''Buy milk''" "Some ''Groceries''" "''Groceries''"] h
  show ?thesis by simp
qed

subsection \<open>C5: section create\<close>

text \<open>
  C5: for \<^verbatim>\<open>section create\<close>, when the list identifier or the display name is absent no child
  process is spawned and, \<open>p\<close> being the located \<^verbatim>\<open>sectionctl\<close>, the handler raises the ValueError
  naming both flags; when both are given the one child spawned has the argument vector
  \<open>[p, create, list_id, display_name]\<close>.
\<close>

theorem section_create_rule:
  "(l = None \<or> d = None \<longrightarrow>
      spawned (fst (run_section_cmd env
        \<lparr>section_args.operation = ''create'', section_args.list_id = l,
         section_args.section_id = s, display_name = d\<rparr>)) = [] \<and>
      (snd (locate_sectionctl env) = Inr p \<longrightarrow>
         snd (run_section_cmd env
           \<lparr>section_args.operation = ''create'', section_args.list_id = l,
            section_args.section_id = s, display_name = d\<rparr>)
         = Inl (ValueError ''Both --list-id and --display-name are required for create operation.''))) \<and>
   (snd (locate_sectionctl env) = Inr p \<and> l' \<noteq> [] \<and> d' \<noteq> [] \<longrightarrow>
      spawned (fst (run_section_cmd env
        \<lparr>section_args.operation = ''create'', section_args.list_id = Some l',
         section_args.section_id = s, display_name = Some d'\<rparr>))
      = [[p, ''create'', l', d']])"
proof (intro conjI impI)
  let ?a = "\<lparr>section_args.operation = ''create'', section_args.list_id = l,
             section_args.section_id = s, display_name = d\<rparr>"
  assume absent: "l = None \<or> d = None"
  then have "spec_missing_required (absent_for_blank (Section ?a))"
    by (auto simp add: blank_to_None_def)
  from missing_field_core [OF this, of env]
  show "spawned (fst (run_section_cmd env ?a)) = []"
    by (simp add: locate_sectionctl_probes)
  assume located: "snd (locate_sectionctl env) = Inr p"
  from absent have "cmd_parts p (Section ?a) =
      Inl (ValueError ''Both --list-id and --display-name are required for create operation.'')"
    by (auto simp add: section_cmd_parts_def truthy_def)
  with run_cmd_located [of env "Section ?a" p] located
  show "snd (run_section_cmd env ?a) =
      Inl (ValueError ''Both --list-id and --display-name are required for create operation.'')"
    by simp
next
  let ?a = "\<lparr>section_args.operation = ''create'', section_args.list_id = Some l',
             section_args.section_id = s, display_name = Some d'\<rparr>"
  assume h: "snd (locate_sectionctl env) = Inr p \<and> l' \<noteq> [] \<and> d' \<noteq> []"
  then have "cmd_parts p (Section ?a) = Inr [p, ''create'', l', d']"
    by (simp add: section_cmd_parts_def truthy_def)
  with spawned_located [of env "Section ?a" p] h
  show "spawned (fst (run_section_cmd env ?a)) = [[p, ''create'', l', d']]"
    by simp
qed

text \<open>
  The theorem at \<^verbatim>\<open>section create --list-id L1\<close> and at
  \<^verbatim>\<open>section create --list-id L1 --display-name Work\<close>.
\<close>

theorem section_create_rule_witness:
  "snd (locate_sectionctl installed) = Inr ''/srv/app/sectionctl'' \<and>
   spawned (fst (run_section_cmd installed
     \<lparr>section_args.operation = ''create'', section_args.list_id = Some ''L1'',
      section_args.section_id = None, display_name = None\<rparr>)) = [] \<and>
   snd (run_section_cmd installed
     \<lparr>section_args.operation = ''create'', section_args.list_id = Some ''L1'',
      section_args.section_id = None, display_name = None\<rparr>)
     = Inl (ValueError ''Both --list-id and --display-name are required for create operation.'') \<and>
   spawned (fst (run_section_cmd installed
     \<lparr>section_args.operation = ''create'', section_args.list_id = Some ''L1'',
      section_args.section_id = None, display_name = Some ''Work''\<rparr>))
     = [[''/srv/app/sectionctl'', ''create'', ''L1'', ''Work'']]"
proof -
  have h: "snd (locate_sectionctl installed) = Inr ''/srv/app/sectionctl''"
    by (simp add: installed_sectionctl)
  from section_create_rule
         [where l = "Some ''L1''" and d = None and env = installed and s = None
            and p = "''/srv/app/sectionctl''" and l' = "''L1''" and d' = "''Work''"] h
  show ?thesis by simp
qed

subsection \<open>C6: subtask update\<close>

text \<open>
  C6: for \<^verbatim>\<open>subtask update\<close>, without a subtask identifier no child process is spawned and,
  \<open>p\<close> being the located \<^verbatim>\<open>subtaskctl\<close>, the handler raises the ValueError naming
  \<^verbatim>\<open>--subtask-id\<close>; with a subtask identifier and no new title the argument vector is exactly
  \<open>[p, update, subtask_id]\<close>, and a new title, when given, is its fourth element.
\<close>

theorem subtask_update_rule:
  "spawned (fst (run_subtask_cmd env
     \<lparr>operation = ''update'', parent_id = q, subtask_id = None, title = t, new_title = n\<rparr>)) = [] \<and>
   (snd (locate_subtaskctl env) = Inr p \<longrightarrow>
      snd (run_subtask_cmd env
        \<lparr>operation = ''update'', parent_id = q, subtask_id = None, title = t, new_title = n\<rparr>)
      = Inl (ValueError ''--subtask-id is required for update operation.'')) \<and>
   (snd (locate_subtaskctl env) = Inr p \<and> s \<noteq> [] \<longrightarrow>
      spawned (fst (run_subtask_cmd env
        \<lparr>operation = ''update'', parent_id = q, subtask_id = Some s, title = t, new_title = None\<rparr>))
      = [[p, ''update'', s]]) \<and>
   (snd (locate_subtaskctl env) = Inr p \<and> s \<noteq> [] \<and> n' \<noteq> [] \<longrightarrow>
      spawned (fst (run_subtask_cmd env
        \<lparr>operation = ''update'', parent_id = q, subtask_id = Some s, title = t, new_title = Some n'\<rparr>))
      = [[p, ''update'', s, n']])"
proof (intro conjI impI)
  let ?a = "\<lparr>operation = ''update'', parent_id = q, subtask_id = None, title = t, new_title = n\<rparr>"
  have "spec_missing_required (absent_for_blank (Subtask ?a))"
    by (simp add: blank_to_None_def)
  from missing_field_core [OF this, of env]
  show "spawned (fst (run_subtask_cmd env ?a)) = []"
    by (simp add: locate_subtaskctl_probes)
  assume located: "snd (locate_subtaskctl env) = Inr p"
  have "cmd_parts p (Subtask ?a) = Inl (ValueError ''--subtask-id is required for update operation.'')"
    by (simp add: subtask_cmd_parts_def truthy_def)
  with run_cmd_located [of env "Subtask ?a" p] located
  show "snd (run_subtask_cmd env ?a) = Inl (ValueError ''--subtask-id is required for update operation.'')"
    by simp
next
  let ?a = "\<lparr>operation = ''update'', parent_id = q, subtask_id = Some s, title = t, new_title = None\<rparr>"
  assume h: "snd (locate_subtaskctl env) = Inr p \<and> s \<noteq> []"
  then have "cmd_parts p (Subtask ?a) = Inr [p, ''update'', s]"
    by (simp add: subtask_cmd_parts_def truthy_def)
  with spawned_located [of env "Subtask ?a" p] h
  show "spawned (fst (run_subtask_cmd env ?a)) = [[p, ''update'', s]]"
    by simp
next
  let ?a = "\<lparr>operation = ''update'', parent_id = q, subtask_id = Some s, title = t, new_title = Some n'\<rparr>"
  assume h: "snd (locate_subtaskctl env) = Inr p \<and> s \<noteq> [] \<and> n' \<noteq> []"
  then have "cmd_parts p (Subtask ?a) = Inr [p, ''update'', s, n']"
    by (simp add: subtask_cmd_parts_def truthy_def)
  with spawned_located [of env "Subtask ?a" p] h
  show "spawned (fst (run_subtask_cmd env ?a)) = [[p, ''update'', s, n']]"
    by simp
qed

text \<open>
  The theorem at \<^verbatim>\<open>subtask update --new-title Renamed\<close>, at
  \<^verbatim>\<open>subtask update --subtask-id S1\<close> and at
  \<^verbatim>\<open>subtask update --subtask-id S1 --new-title Renamed\<close>.
\<close>

theorem subtask_update_rule_witness:
  "snd (locate_subtaskctl installed) = Inr ''/srv/app/subtaskctl'' \<and>
   spawned (fst (run_subtask_cmd installed
     \<lparr>operation = ''update'', parent_id = None, subtask_id = None, title = None,
      new_title = Some ''Renamed''\<rparr>)) = [] \<and>
   snd (run_subtask_cmd installed
     \<lparr>operation = ''update'', parent_id = None, subtask_id = None, title = None,
      new_title = Some ''Renamed''\<rparr>)
     = Inl (ValueError ''--subtask-id is required for update operation.'') \<and>
   spawned (fst (run_subtask_cmd installed
     \<lparr>operation = ''update'', parent_id = None, subtask_id = Some ''S1'', title = None,
      new_title = None\<rparr>))
     = [[''/srv/app/subtaskctl'', ''update'', ''S1'']] \<and>
   spawned (fst (run_subtask_cmd installed
     \<lparr>operation = ''update'', parent_id = None, subtask_id = Some ''S1'', title = None,
      new_title = Some ''Renamed''\<rparr>))
     = [[''/srv/app/subtaskctl'', ''update'', ''S1'', ''Renamed'']]"
proof -
  have h: "snd (locate_subtaskctl installed) = Inr ''/srv/app/subtaskctl''"
    by (simp add: installed_subtaskctl)
  from subtask_update_rule
         [where env = installed and q = None and t = None and n = "Some ''Renamed''"
            and p = "''/srv/app/subtaskctl''" and s = "''S1''" and n' = "''Renamed''"] h
  show ?thesis by simp
qed

subsection \<open>C7: no subcommand, unknown subcommand\<close>

text \<open>
  C7, as amended: without a subcommand the router prints the help and exits with status 0.
  A first word other than the registered \<^verbatim>\<open>subtask\<close> is rejected by the argument parser, which
  prints usage and an error and exits with status 2. Printing the help and exiting with status 1
  is what lines 45-47 do for a namespace that names a command and carries no handler, and
  the argument parser never returns such a namespace.
\<close>

theorem unknown_subcommand_exit:
  "main env No_subcommand = ([Print_help], 0) \<and>
   (w \<noteq> ''subtask'' \<longrightarrow> main env (Subcommand w rest) = ([Usage_error], 2)) \<and>
   dispatch env \<lparr>command = Some w, func = None\<rparr> = ([Print_help], 1) \<and>
   (parse_args subparsers cmdline = Inr ns \<and> command ns \<noteq> None \<longrightarrow> func ns \<noteq> None)"
proof (intro conjI impI)
  show "main env No_subcommand = ([Print_help], 0)"
    by (simp add: main_def parse_args_def dispatch_def)
next
  assume "w \<noteq> ''subtask''"
  then show "main env (Subcommand w rest) = ([Usage_error], 2)"
    by (rule main_unregistered)
next
  show "dispatch env \<lparr>command = Some w, func = None\<rparr> = ([Print_help], 1)"
    by (simp add: dispatch_def)
next
  assume "parse_args subparsers cmdline = Inr ns \<and> command ns \<noteq> None"
  then show "func ns \<noteq> None"
    using parsed_command_has_func [of cmdline ns] by simp
qed

text \<open>
  The theorem at \<^verbatim>\<open>remindctl\<close> and at \<^verbatim>\<open>remindctl remove R1\<close>, with the namespace
  parsed from \<^verbatim>\<open>remindctl subtask list\<close>.
\<close>

theorem unknown_subcommand_exit_witness:
  "main installed No_subcommand = ([Print_help], 0) \<and>
   main installed (Subcommand ''remove'' [Positional ''R1'']) = ([Usage_error], 2) \<and>
   dispatch installed \<lparr>command = Some ''remove'', func = None\<rparr> = ([Print_help], 1) \<and>
   parse_args subparsers (Subcommand ''subtask'' [Positional ''list''])
     = Inr \<lparr>command = Some ''subtask'',
            func = Some (\<lambda>env. run_subtask_cmd env
              \<lparr>operation = ''list'', parent_id = None, subtask_id = None, title = None,
               new_title = None\<rparr>)\<rparr>"
proof -
  have p: "parse_args subparsers (Subcommand ''subtask'' [Positional ''list''])
     = Inr \<lparr>command = Some ''subtask'',
            func = Some (\<lambda>env. run_subtask_cmd env
              \<lparr>operation = ''list'', parent_id = None, subtask_id = None, title = None,
               new_title = None\<rparr>)\<rparr>"
    by (simp add: parse_args_def subparsers_lookup parse_list)
  from unknown_subcommand_exit [of installed "''remove''" "[Positional ''R1'']"] p
  show ?thesis by simp
qed

text \<open>
  C7 as stated fails: \<^verbatim>\<open>remindctl bogus\<close> exits with status 2, not 1.
\<close>

theorem unknown_subcommand_exits_2:
  "main installed (Subcommand ''bogus'' []) = ([Usage_error], 2) \<and>
   snd (main installed (Subcommand ''bogus'' [])) \<noteq> 1"
  by (simp add: main_unregistered)

subsection \<open>C8: a child that exits non-zero\<close>

text \<open>
  C8: whenever a handler has started the binary with the argument vector \<open>cmd\<close> and the child
  exits with a non-zero code, the router exits with status 1; the last thing written is
  \<^verbatim>\<open>Error: \<close> followed by the exception's text, on standard error, and before it the
  child's captured stdout and stderr are reproduced unchanged, each on a labelled line of
  standard output.
\<close>

theorem child_failure_reported:
  assumes "cmd \<in> set (spawned (fst (run_cmd env r)))"
    and "subprocess_run env cmd = Completed rc out err"
    and "rc \<noteq> 0"
  shows "dispatch env (invoked r) =
           (fst (locate env r) @
            [Run cmd,
             Stdout (''Error running '' @ binary r @ '': '' @ str_CalledProcessError env cmd rc @ ''\<newline>''),
             Stdout (''Stdout: '' @ out @ ''\<newline>''),
             Stdout (''Stderr: '' @ err @ ''\<newline>''),
             Stderr (''Error: '' @ str_CalledProcessError env cmd rc @ ''\<newline>'')], 1)"
  using assms(2,3)
  by (simp add: dispatch_def invoked_def run_cmd_spawned [OF assms(1)] after_def run_and_relay_def)

text \<open>
  The theorem at \<^verbatim>\<open>remindctl subtask list --parent-id P1\<close> with a child that exits 3.
\<close>

theorem child_failure_reported_witness:
  "[''/srv/app/subtaskctl'', ''list'', ''P1''] \<in> set (spawned (fst (run_cmd failing
     (Subtask \<lparr>operation = ''list'', parent_id = Some ''P1'', subtask_id = None, title = None,
               new_title = None\<rparr>)))) \<and>
   subprocess_run failing [''/srv/app/subtaskctl'', ''list'', ''P1''] = Completed 3 ''partial'' ''boom'' \<and>
   dispatch failing (invoked
     (Subtask \<lparr>operation = ''list'', parent_id = Some ''P1'', subtask_id = None, title = None,
               new_title = None\<rparr>))
     = ([Exists ''/srv/app/subtaskctl'', Exists ''/srv/app/subtaskctl'',
         Run [''/srv/app/subtaskctl'', ''list'', ''P1''],
         Stdout ''Error running subtaskctl: Command failed\<newline>'',
         Stdout ''Stdout: partial\<newline>'',
         Stdout ''Stderr: boom\<newline>'',
         Stderr ''Error: Command failed\<newline>''], 1) \<and>
   main failing (Subcommand ''subtask'' [Positional ''list'', Flag ''--parent-id'' ''P1''])
     = dispatch failing (invoked
         (Subtask \<lparr>operation = ''list'', parent_id = Some ''P1'', subtask_id = None, title = None,
                   new_title = None\<rparr>))"
proof -
  let ?r = "Subtask \<lparr>operation = ''list'', parent_id = Some ''P1'', subtask_id = None,
                      title = None, new_title = None\<rparr>"
  let ?cmd = "[''/srv/app/subtaskctl'', ''list'', ''P1'']"
  have parts: "cmd_parts ''/srv/app/subtaskctl'' ?r = Inr ?cmd"
    by (simp add: subtask_cmd_parts_def truthy_def)
  have f1: "?cmd \<in> set (spawned (fst (run_cmd failing ?r)))"
    using spawned_located [of failing ?r "''/srv/app/subtaskctl''"] parts
    by (simp add: failing_subtaskctl)
  have f2: "subprocess_run failing ?cmd = Completed 3 ''partial'' ''boom''"
    by (simp add: failing_def installed_def)
  have f3: "(3::int) \<noteq> 0" by simp
  have f4: "str_CalledProcessError failing ?cmd 3 = ''Command failed''"
    by (simp add: failing_def installed_def)
  from child_failure_reported [OF f1 f2 f3] f1 f2 f4 main_subtask [OF parse_list_P1, of failing]
  show ?thesis by (simp add: failing_subtaskctl)
qed

subsection \<open>C9: a child that exits zero\<close>

text \<open>
  C9: whenever a handler has started the binary with the argument vector \<open>cmd\<close> and the child
  exits with code 0, the router writes the captured stdout, always, then the captured stderr
  when it is not empty, and exits with status 0.
\<close>

theorem relay_on_success:
  assumes "cmd \<in> set (spawned (fst (run_cmd env r)))"
    and "subprocess_run env cmd = Completed 0 out err"
  shows "dispatch env (invoked r) =
           (fst (locate env r) @ [Run cmd, Stdout out] @ (if err \<noteq> [] then [Stdout err] else []), 0)"
  using assms(2)
  by (simp add: dispatch_def invoked_def run_cmd_spawned [OF assms(1)] after_def run_and_relay_def)

text \<open>
  The theorem at \<^verbatim>\<open>subtask list --parent-id P1\<close>, with a child that writes to both streams and
  with one that writes to stdout only.
\<close>

theorem relay_on_success_witness:
  "[''/srv/app/subtaskctl'', ''list'', ''P1''] \<in> set (spawned (fst (run_cmd noisy
     (Subtask \<lparr>operation = ''list'', parent_id = Some ''P1'', subtask_id = None, title = None,
               new_title = None\<rparr>)))) \<and>
   subprocess_run noisy [''/srv/app/subtaskctl'', ''list'', ''P1''] = Completed 0 ''done'' ''warning'' \<and>
   dispatch noisy (invoked
     (Subtask \<lparr>operation = ''list'', parent_id = Some ''P1'', subtask_id = None, title = None,
               new_title = None\<rparr>))
     = ([Exists ''/srv/app/subtaskctl'', Exists ''/srv/app/subtaskctl'',
         Run [''/srv/app/subtaskctl'', ''list'', ''P1''], Stdout ''done'', Stdout ''warning''], 0) \<and>
   [''/srv/app/subtaskctl'', ''list'', ''P1''] \<in> set (spawned (fst (run_cmd installed
     (Subtask \<lparr>operation = ''list'', parent_id = Some ''P1'', subtask_id = None, title = None,
               new_title = None\<rparr>)))) \<and>
   subprocess_run installed [''/srv/app/subtaskctl'', ''list'', ''P1''] = Completed 0 ''done'' [] \<and>
   dispatch installed (invoked
     (Subtask \<lparr>operation = ''list'', parent_id = Some ''P1'', subtask_id = None, title = None,
               new_title = None\<rparr>))
     = ([Exists ''/srv/app/subtaskctl'', Exists ''/srv/app/subtaskctl'',
         Run [''/srv/app/subtaskctl'', ''list'', ''P1''], Stdout ''done''], 0) \<and>
   main installed (Subcommand ''subtask'' [Positional ''list'', Flag ''--parent-id'' ''P1''])
     = dispatch installed (invoked
         (Subtask \<lparr>operation = ''list'', parent_id = Some ''P1'', subtask_id = None, title = None,
                   new_title = None\<rparr>))"
proof -
  let ?r = "Subtask \<lparr>operation = ''list'', parent_id = Some ''P1'', subtask_id = None,
                      title = None, new_title = None\<rparr>"
  let ?cmd = "[''/srv/app/subtaskctl'', ''list'', ''P1'']"
  have parts: "cmd_parts ''/srv/app/subtaskctl'' ?r = Inr ?cmd"
    by (simp add: subtask_cmd_parts_def truthy_def)
  have n1: "?cmd \<in> set (spawned (fst (run_cmd noisy ?r)))"
    using spawned_located [of noisy ?r "''/srv/app/subtaskctl''"] parts
    by (simp add: noisy_subtaskctl)
  have n2: "subprocess_run noisy ?cmd = Completed 0 ''done'' ''warning''"
    by (simp add: noisy_def installed_def)
  have i1: "?cmd \<in> set (spawned (fst (run_cmd installed ?r)))"
    using spawned_located [of installed ?r "''/srv/app/subtaskctl''"] parts
    by (simp add: installed_subtaskctl)
  have i2: "subprocess_run installed ?cmd = Completed 0 ''done'' []"
    by (simp add: installed_def)
  from relay_on_success [OF n1 n2] relay_on_success [OF i1 i2] n1 n2 i1 i2
    main_subtask [OF parse_list_P1, of installed]
  show ?thesis by (simp add: noisy_subtaskctl installed_subtaskctl)
qed

subsection \<open>C10: an empty string is an absent flag\<close>

text \<open>
  C10: every handler behaves on a request as on the same request with its empty-string flags
  left out. So a request whose required field is given as the empty string spawns no child
  and, the binary being located, raises the missing-field ValueError; and
  \<^verbatim>\<open>subtask update\<close> with an empty new title runs \<open>[p, update, subtask_id]\<close>.
\<close>

theorem blank_flag_is_absent:
  "run_cmd env (absent_for_blank r) = run_cmd env r \<and>
   (spec_missing_required (absent_for_blank r) \<longrightarrow>
      spawned (fst (run_cmd env r)) = [] \<and>
      (\<forall>p. snd (locate env r) = Inr p \<longrightarrow> is_ValueError (snd (run_cmd env r)))) \<and>
   (snd (locate_subtaskctl env) = Inr p \<and> s \<noteq> [] \<longrightarrow>
      spawned (fst (run_subtask_cmd env
        \<lparr>operation = ''update'', parent_id = q, subtask_id = Some s, title = t, new_title = Some []\<rparr>))
      = [[p, ''update'', s]])"
proof (intro conjI impI allI)
  show "run_cmd env (absent_for_blank r) = run_cmd env r"
    by (rule run_cmd_blank)
next
  assume m: "spec_missing_required (absent_for_blank r)"
  from missing_field_core [OF m, of env] show "spawned (fst (run_cmd env r)) = []"
    by (simp add: locate_probes)
next
  fix p' assume m: "spec_missing_required (absent_for_blank r)" and "snd (locate env r) = Inr p'"
  with missing_field_core [OF m, of env] show "is_ValueError (snd (run_cmd env r))"
    by simp
next
  let ?a = "\<lparr>operation = ''update'', parent_id = q, subtask_id = Some s, title = t, new_title = Some []\<rparr>"
  assume h: "snd (locate_subtaskctl env) = Inr p \<and> s \<noteq> []"
  then have "cmd_parts p (Subtask ?a) = Inr [p, ''update'', s]"
    by (simp add: subtask_cmd_parts_def truthy_def)
  with spawned_located [of env "Subtask ?a" p] h
  show "spawned (fst (run_subtask_cmd env ?a)) = [[p, ''update'', s]]"
    by simp
qed

text \<open>
  The theorem at \<^verbatim>\<open>subtask create --parent-id "" --title T\<close>, at
  \<^verbatim>\<open>section delete --section-id ""\<close> and at
  \<^verbatim>\<open>subtask update --subtask-id S1 --new-title ""\<close>.
\<close>

theorem blank_flag_is_absent_witness:
  "spec_missing_required (absent_for_blank
     (Subtask \<lparr>operation = ''create'', parent_id = Some [], subtask_id = None,
               title = Some ''T'', new_title = None\<rparr>)) \<and>
   spawned (fst (run_cmd installed
     (Subtask \<lparr>operation = ''create'', parent_id = Some [], subtask_id = None,
               title = Some ''T'', new_title = None\<rparr>))) = [] \<and>
   is_ValueError (snd (run_cmd installed
     (Subtask \<lparr>operation = ''create'', parent_id = Some [], subtask_id = None,
               title = Some ''T'', new_title = None\<rparr>))) \<and>
   spec_missing_required (absent_for_blank
     (Section \<lparr>section_args.operation = ''delete'', section_args.list_id = None,
               section_args.section_id = Some [], display_name = None\<rparr>)) \<and>
   spawned (fst (run_cmd installed
     (Section \<lparr>section_args.operation = ''delete'', section_args.list_id = None,
               section_args.section_id = Some [], display_name = None\<rparr>))) = [] \<and>
   is_ValueError (snd (run_cmd installed
     (Section \<lparr>section_args.operation = ''delete'', section_args.list_id = None,
               section_args.section_id = Some [], display_name = None\<rparr>))) \<and>
   spawned (fst (run_subtask_cmd installed
     \<lparr>operation = ''update'', parent_id = None, subtask_id = Some ''S1'', title = None,
      new_title = Some []\<rparr>))
     = [[''/srv/app/subtaskctl'', ''update'', ''S1'']]"
proof -
  let ?r1 = "Subtask \<lparr>operation = ''create'', parent_id = Some [], subtask_id = None,
               title = Some ''T'', new_title = None\<rparr>"
  let ?r2 = "Section \<lparr>section_args.operation = ''delete'', section_args.list_id = None,
               section_args.section_id = Some [], display_name = None\<rparr>"
  have m1: "spec_missing_required (absent_for_blank ?r1)"
    by (simp add: blank_to_None_def)
  have m2: "spec_missing_required (absent_for_blank ?r2)"
    by (simp add: blank_to_None_def)
  have l1: "snd (locate installed ?r1) = Inr ''/srv/app/subtaskctl''"
    by (simp add: installed_subtaskctl)
  have l2: "snd (locate installed ?r2) = Inr ''/srv/app/sectionctl''"
    by (simp add: installed_sectionctl)
  have l3: "snd (locate_subtaskctl installed) = Inr ''/srv/app/subtaskctl''"
    by (simp add: installed_subtaskctl)
  from blank_flag_is_absent [of installed ?r1 "''/srv/app/subtaskctl''" "''S1''" None None]
       blank_flag_is_absent [of installed ?r2 "''/srv/app/subtaskctl''" "''S1''" None None]
       m1 m2 l1 l2 l3
  show ?thesis by simp
qed

end
